theory Spec2Isabelle
  imports Main "HOL-Library.AList" "HOL-Library.Sublist"
begin

section \<open>Values, exceptions and the state of the inventory system\<close>

text \<open>
  The arguments of \<^verbatim>\<open>add_item\<close>, \<^verbatim>\<open>remove_item\<close> and \<^verbatim>\<open>get_qty\<close> are untyped in the
  source, which inspects them with \<^verbatim>\<open>isinstance\<close>. They are modelled by a datatype with one
  constructor per class of argument the checks tell apart. In Python \<^verbatim>\<open>bool\<close> is a subclass of
  \<^verbatim>\<open>int\<close>, so \<^verbatim>\<open>isinstance(True, int)\<close> holds and \<^verbatim>\<open>True\<close> counts as \<^verbatim>\<open>1\<close>.
\<close>

datatype pyval = PyNone | PyBool bool | PyInt int | PyStr string | PyList "pyval list"

fun as_str :: "pyval \<Rightarrow> string option" where
  "as_str (PyStr s) = Some s"
| "as_str _ = None"

fun as_int :: "pyval \<Rightarrow> int option" where
  "as_int (PyInt n) = Some n"
| "as_int (PyBool b) = Some (if b then 1 else 0)"
| "as_int _ = None"

fun hashable :: "pyval \<Rightarrow> bool" where
  "hashable (PyList _) = False"
| "hashable _ = True"

datatype exn =
    TypeError string
  | ValueError string
  | KeyError string
  | FileNotFoundError
  | IsADirectoryError
  | JSONDecodeError

datatype level = INFO | WARNING | ERROR

type_synonym log_record = "level \<times> string \<times> pyval list"

text \<open>
  A path of the file system names nothing, a directory, or a regular file holding text.
\<close>

datatype node = Directory | File string

text \<open>
  The fields \<open>file_name\<close> and \<open>stock_data\<close> are those of the \<^verbatim>\<open>InventoryManager\<close> object.
  \<open>stock_data\<close> is a Python \<^verbatim>\<open>dict\<close> from \<^verbatim>\<open>str\<close> to \<^verbatim>\<open>int\<close>: an association list in
  insertion order. The fields \<open>files\<close> and \<open>log\<close> are the surroundings the methods act on:
  the file system and the records handed to the \<^verbatim>\<open>logging\<close> module (level, format string,
  arguments).
\<close>

record state =
  file_name :: string
  stock_data :: "(string \<times> int) list"
  files :: "string \<Rightarrow> node option"
  log :: "log_record list"

definition logging :: "level \<Rightarrow> string \<Rightarrow> pyval list \<Rightarrow> state \<Rightarrow> state" where
  "logging lv msg args s = s\<lparr>log := log s @ [(lv, msg, args)]\<rparr>"

text \<open>\<^verbatim>\<open>d.get(k, default)\<close> on a dictionary.\<close>

definition dict_get :: "('k \<times> 'v) list \<Rightarrow> 'k \<Rightarrow> 'v \<Rightarrow> 'v" where
  "dict_get d k dflt = (case map_of d k of None \<Rightarrow> dflt | Some v \<Rightarrow> v)"

text \<open>
  \<^verbatim>\<open>d[k] = v\<close> is \<^const>\<open>AList.update\<close> (the value is replaced in place, a new key goes to the
  end), \<^verbatim>\<open>del d[k]\<close> is \<^const>\<open>AList.delete\<close>, and \<^verbatim>\<open>k in d\<close> is \<open>map_of d k \<noteq> None\<close>.
\<close>

section \<open>The methods of \<^verbatim>\<open>InventoryManager\<close>\<close>

text \<open>
  Every method takes the state and returns what the call raised or returned, with the state
  after the call.
\<close>

definition InventoryManager :: "string \<Rightarrow> state \<Rightarrow> state" where
  "InventoryManager name env = env\<lparr>file_name := name, stock_data := []\<rparr>"

definition add_item :: "pyval \<Rightarrow> pyval \<Rightarrow> state \<Rightarrow> (exn + unit) \<times> state" where
  "add_item item qty self =
     (case as_str item of
        None \<Rightarrow> (Inl (TypeError ''Item name must be a string.''), self)
      | Some name \<Rightarrow>
          (case as_int qty of
             None \<Rightarrow> (Inl (TypeError ''Quantity must be an integer.''), self)
           | Some n \<Rightarrow>
               if n \<le> 0 then (Inl (ValueError ''Quantity must be greater than zero.''), self)
               else
                 let current_qty = dict_get (stock_data self) name 0;
                     self = self\<lparr>stock_data := AList.update name (current_qty + n) (stock_data self)\<rparr>
                 in (Inr (), logging INFO ''Added %d of %s'' [qty, item] self)))"

definition remove_item :: "pyval \<Rightarrow> pyval \<Rightarrow> state \<Rightarrow> (exn + unit) \<times> state" where
  "remove_item item qty self =
     (case (as_str item, as_int qty) of
        (Some name, Some n) \<Rightarrow>
          (case map_of (stock_data self) name of
             None \<Rightarrow>
               (Inr (), logging WARNING ''Attempted to remove non-existent item: %s'' [item] self)
           | Some q \<Rightarrow>
               let self = self\<lparr>stock_data := AList.update name (q - n) (stock_data self)\<rparr> in
               (case map_of (stock_data self) name of
                  None \<Rightarrow> (Inl (KeyError name), self)
                | Some q' \<Rightarrow>
                    if q' \<le> 0 then
                      let self = self\<lparr>stock_data := AList.delete name (stock_data self)\<rparr>
                      in (Inr (), logging INFO ''Removed all of %s (now zero or negative)'' [item] self)
                    else (Inr (), logging INFO ''Removed %d of %s'' [qty, item] self)))
      | _ \<Rightarrow> (Inl (TypeError ''Invalid item name or quantity type.''), self))"

text \<open>
  \<^verbatim>\<open>get_qty\<close> does not check its argument: a key that cannot be hashed makes \<^verbatim>\<open>dict.get\<close>
  raise, and a key that is no string equals no key of the stock.
\<close>

definition get_qty :: "pyval \<Rightarrow> state \<Rightarrow> (exn + int) \<times> state" where
  "get_qty item self =
     (if \<not> hashable item then
        (Inl (TypeError (''unhashable type: '' @ [CHR 0x27] @ ''list'' @ [CHR 0x27])), self)
      else case as_str item of
             None \<Rightarrow> (Inr 0, self)
           | Some name \<Rightarrow> (Inr (dict_get (stock_data self) name 0), self))"

text \<open>The argument \<open>None\<close> is the call without a threshold, which takes the default 5.\<close>

definition check_low_items :: "int option \<Rightarrow> state \<Rightarrow> (exn + string list) \<times> state" where
  "check_low_items arg self =
     (let threshold = (case arg of None \<Rightarrow> 5 | Some t \<Rightarrow> t)
      in (Inr [item. (item, qty) \<leftarrow> stock_data self, qty < threshold], self))"

text \<open>A caller that catches what a call raises and goes on with the next call.\<close>

datatype call = Add pyval pyval | Remove pyval pyval

fun perform :: "call \<Rightarrow> state \<Rightarrow> state" where
  "perform (Add item qty) s = snd (add_item item qty s)"
| "perform (Remove item qty) s = snd (remove_item item qty s)"

fun run :: "call list \<Rightarrow> state \<Rightarrow> state" where
  "run [] s = s"
| "run (c # cs) s = run cs (perform c s)"

text \<open>The invariant of the data model: every stored quantity is positive.\<close>

definition positive_stock :: "state \<Rightarrow> bool" where
  "positive_stock s = list_all (\<lambda>(item, qty). 0 < qty) (stock_data s)"


text \<open>The stock \<^verbatim>\<open>{"apple": 7, "banana": 2}\<close>, with no file and no log record.\<close>

definition demo :: state where
  "demo = \<lparr>file_name = ''inventory.json'', stock_data = [(''apple'', 7), (''banana'', 2)],
           files = (\<lambda>_. None), log = []\<rparr>"

section \<open>The persistence file: \<^verbatim>\<open>json.dump\<close> and \<^verbatim>\<open>json.load\<close>\<close>

text \<open>
  \<^verbatim>\<open>save_data\<close> and \<^verbatim>\<open>load_data\<close> call the \<^verbatim>\<open>json\<close> module of the Python standard library. The
  text that \<^verbatim>\<open>json.dump(d, file, indent=4)\<close> writes for a dictionary of strings and integers,
  and what \<^verbatim>\<open>json.load\<close> makes of a text, are modelled here on the text itself. Characters are
  the code points below 256.
\<close>

subsection \<open>Writing: \<^verbatim>\<open>json.dump\<close> with \<^verbatim>\<open>indent=4\<close>\<close>











subsection \<open>Reading: \<^verbatim>\<open>json.load\<close>\<close>

text \<open>
  The decoder is a recursive descent over the text. Of a decoded value only what \<open>stock_data\<close>
  can hold is kept: an integer, an object with its keys, in the order of the text, and its
  values; every other value (a string, a real number, a constant, an array) is \<open>JOther\<close>, and a
  key with a character above 255 is \<open>None\<close>. A scan yields the value and the rest of the text,
  or fails as the decoder does when it raises \<^verbatim>\<open>JSONDecodeError\<close>. The recursion is bounded by a
  counter that \<open>json_loads\<close> starts at twice the length of the text plus one, two for each
  level of nesting.
\<close>

datatype jv = JInt int | JObject "(string option \<times> jv) list" | JOther

datatype 'a scanned = Got 'a string | Decode_Error | Out_Of_Fuel

definition is_ws :: "char \<Rightarrow> bool" where
  "is_ws c = (c = CHR '' '' \<or> c = CHR 0x09 \<or> c = CHR 0x0A \<or> c = CHR 0x0D)"

definition skip_ws :: "string \<Rightarrow> string" where
  "skip_ws = dropWhile is_ws"

definition is_digit :: "char \<Rightarrow> bool" where
  "is_digit c = ((48::nat) \<le> of_char c \<and> of_char c \<le> (57::nat))"

definition digits_value :: "string \<Rightarrow> nat" where
  "digits_value ds = foldl (\<lambda>a c. 10 * a + (of_char c - 48)) 0 ds"

definition hex_value :: "char \<Rightarrow> nat option" where
  "hex_value c =
     (let n = of_char c in
      if 48 \<le> n \<and> n \<le> 57 then Some (n - 48)
      else if 97 \<le> n \<and> n \<le> 102 then Some (n - 87)
      else if 65 \<le> n \<and> n \<le> 70 then Some (n - 55)
      else None)"

definition decode_uXXXX :: "string \<Rightarrow> nat option" where
  "decode_uXXXX s =
     (case s of
        a # b # c # d # _ \<Rightarrow>
          (case (hex_value a, hex_value b, hex_value c, hex_value d) of
             (Some w, Some x, Some y, Some z) \<Rightarrow> Some (((w * 16 + x) * 16 + y) * 16 + z)
           | _ \<Rightarrow> None)
      | _ \<Rightarrow> None)"

definition backslash :: "char \<Rightarrow> char option" where
  "backslash e =
     (if e = CHR 0x22 then Some (CHR 0x22)
      else if e = CHR 0x5C then Some (CHR 0x5C)
      else if e = CHR ''/'' then Some (CHR ''/'')
      else if e = CHR ''b'' then Some (CHR 0x08)
      else if e = CHR ''f'' then Some (CHR 0x0C)
      else if e = CHR ''n'' then Some (CHR 0x0A)
      else if e = CHR ''r'' then Some (CHR 0x0D)
      else if e = CHR ''t'' then Some (CHR 0x09)
      else None)"

definition append_char :: "char option \<Rightarrow> string option scanned \<Rightarrow> string option scanned" where
  "append_char c r =
     (case r of
        Got content rest \<Rightarrow>
          Got (case (c, content) of (Some x, Some xs) \<Rightarrow> Some (x # xs) | _ \<Rightarrow> None) rest
      | other \<Rightarrow> other)"

fun scanstring :: "string \<Rightarrow> string option scanned" where
  "scanstring [] = Decode_Error"
| "scanstring (c # s) =
     (if c = CHR 0x22 then Got (Some []) s
      else if c = CHR 0x5C then
        (case s of
           [] \<Rightarrow> Decode_Error
         | e # s1 \<Rightarrow>
             if e = CHR ''u'' then
               (case decode_uXXXX s1 of
                  None \<Rightarrow> Decode_Error
                | Some uni \<Rightarrow>
                    append_char (if uni < 256 then Some (char_of uni) else None)
                      (scanstring (drop 4 s1)))
             else
               (case backslash e of
                  None \<Rightarrow> Decode_Error
                | Some ch \<Rightarrow> append_char (Some ch) (scanstring s1)))
      else if of_char c < (32::nat) then Decode_Error
      else append_char (Some c) (scanstring s))"


text \<open>
  A number is an optional minus sign and either a single 0 or a digit from 1 to 9 followed by
  digits; then, optionally, a point with one digit or more; then, optionally, an exponent: e or
  E, an optional sign and one digit or more. With a fraction or an exponent it is a real number.
\<close>

definition match_frac :: "string \<Rightarrow> string option" where
  "match_frac s =
     (case s of
        c # d # t \<Rightarrow> if c = CHR ''.'' \<and> is_digit d then Some (dropWhile is_digit t) else None
      | _ \<Rightarrow> None)"

definition match_exp :: "string \<Rightarrow> string option" where
  "match_exp s =
     (case s of
        [] \<Rightarrow> None
      | e # t \<Rightarrow>
          if e = CHR ''e'' \<or> e = CHR ''E'' then
            (let u = (case t of
                        [] \<Rightarrow> t
                      | g # t' \<Rightarrow> if (g = CHR ''-'' \<or> g = CHR ''+'') \<and> t' \<noteq> [] \<and> is_digit (hd t')
                                 then t' else t)
             in case u of
                  [] \<Rightarrow> None
                | d # u' \<Rightarrow> if is_digit d then Some (dropWhile is_digit u') else None)
          else None)"

definition number_tail :: "bool \<Rightarrow> string \<Rightarrow> string \<Rightarrow> jv \<times> string" where
  "number_tail neg integer rest =
     (let (frac, rest1) = (case match_frac rest of None \<Rightarrow> (False, rest) | Some r \<Rightarrow> (True, r));
          (exp, rest2) = (case match_exp rest1 of None \<Rightarrow> (False, rest1) | Some r \<Rightarrow> (True, r))
      in if frac \<or> exp then (JOther, rest2)
         else (JInt (if neg then - int (digits_value integer) else int (digits_value integer)), rest2))"

definition match_number :: "string \<Rightarrow> (jv \<times> string) option" where
  "match_number s =
     (let (neg, s1) = (case s of
                         [] \<Rightarrow> (False, s)
                       | c # t \<Rightarrow> if c = CHR ''-'' then (True, t) else (False, s))
      in case s1 of
           [] \<Rightarrow> None
         | c # t \<Rightarrow>
             if c = CHR ''0'' then Some (number_tail neg [c] t)
             else if is_digit c then
               Some (number_tail neg (c # takeWhile is_digit t) (dropWhile is_digit t))
             else None)"

fun scan_once :: "nat \<Rightarrow> string \<Rightarrow> jv scanned"
  and array_loop :: "nat \<Rightarrow> string \<Rightarrow> unit scanned"
  and object_loop :: "nat \<Rightarrow> string \<Rightarrow> (string option \<times> jv) list scanned"
where
  "scan_once 0 s = Out_Of_Fuel"
| "scan_once (Suc n) s =
     (case s of
        [] \<Rightarrow> Decode_Error
      | c # t \<Rightarrow>
          if c = CHR 0x22 then
            (case scanstring t of
               Got _ rest \<Rightarrow> Got JOther rest
             | Decode_Error \<Rightarrow> Decode_Error
             | Out_Of_Fuel \<Rightarrow> Out_Of_Fuel)
          else if c = CHR ''{'' then
            (case skip_ws t of
               [] \<Rightarrow> Decode_Error
             | c' # t' \<Rightarrow>
                 if c' = CHR ''}'' then Got (JObject []) t'
                 else if c' = CHR 0x22 then
                   (case object_loop n t' of
                      Got pairs rest \<Rightarrow> Got (JObject pairs) rest
                    | Decode_Error \<Rightarrow> Decode_Error
                    | Out_Of_Fuel \<Rightarrow> Out_Of_Fuel)
                 else Decode_Error)
          else if c = CHR ''['' then
            (case skip_ws t of
               [] \<Rightarrow> Decode_Error
             | c' # t' \<Rightarrow>
                 if c' = CHR '']'' then Got JOther t'
                 else
                   (case array_loop n (c' # t') of
                      Got _ rest \<Rightarrow> Got JOther rest
                    | Decode_Error \<Rightarrow> Decode_Error
                    | Out_Of_Fuel \<Rightarrow> Out_Of_Fuel))
          else if take 4 s = ''null'' then Got JOther (drop 4 s)
          else if take 4 s = ''true'' then Got JOther (drop 4 s)
          else if take 5 s = ''false'' then Got JOther (drop 5 s)
          else
            (case match_number s of
               Some (v, rest) \<Rightarrow> Got v rest
             | None \<Rightarrow>
                 if take 3 s = ''NaN'' then Got JOther (drop 3 s)
                 else if take 8 s = ''Infinity'' then Got JOther (drop 8 s)
                 else if take 9 s = ''-Infinity'' then Got JOther (drop 9 s)
                 else Decode_Error))"
| "array_loop 0 s = Out_Of_Fuel"
| "array_loop (Suc n) s =
     (case scan_once n s of
        Got _ rest \<Rightarrow>
          (case skip_ws rest of
             [] \<Rightarrow> Decode_Error
           | c # t \<Rightarrow>
               if c = CHR '']'' then Got () t
               else if c = CHR '','' then array_loop n (skip_ws t)
               else Decode_Error)
      | Decode_Error \<Rightarrow> Decode_Error
      | Out_Of_Fuel \<Rightarrow> Out_Of_Fuel)"
| "object_loop 0 s = Out_Of_Fuel"
| "object_loop (Suc n) s =
     (case scanstring s of
        Got key rest \<Rightarrow>
          (case skip_ws rest of
             [] \<Rightarrow> Decode_Error
           | c # t \<Rightarrow>
               if c = CHR '':'' then
                 (case scan_once n (skip_ws t) of
                    Got v rest' \<Rightarrow>
                      (case skip_ws rest' of
                         [] \<Rightarrow> Decode_Error
                       | c' # t' \<Rightarrow>
                           if c' = CHR ''}'' then Got [(key, v)] t'
                           else if c' = CHR '','' then
                             (case skip_ws t' of
                                [] \<Rightarrow> Decode_Error
                              | c'' # t'' \<Rightarrow>
                                  if c'' = CHR 0x22 then
                                    (case object_loop n t'' of
                                       Got pairs rest'' \<Rightarrow> Got ((key, v) # pairs) rest''
                                     | Decode_Error \<Rightarrow> Decode_Error
                                     | Out_Of_Fuel \<Rightarrow> Out_Of_Fuel)
                                  else Decode_Error)
                           else Decode_Error)
                  | Decode_Error \<Rightarrow> Decode_Error
                  | Out_Of_Fuel \<Rightarrow> Out_Of_Fuel)
               else Decode_Error)
      | Decode_Error \<Rightarrow> Decode_Error
      | Out_Of_Fuel \<Rightarrow> Out_Of_Fuel)"

definition json_loads :: "string \<Rightarrow> jv scanned" where
  "json_loads s =
     (case scan_once (Suc (2 * length s)) (skip_ws s) of
        Got v rest \<Rightarrow> if skip_ws rest = [] then Got v [] else Decode_Error
      | Decode_Error \<Rightarrow> Decode_Error
      | Out_Of_Fuel \<Rightarrow> Out_Of_Fuel)"

text \<open>
  The decoder builds a dictionary from the pairs of an object in their order: a key that occurs
  again keeps its place and takes the later value. \<open>as_stock\<close> is the dictionary when all its
  keys are strings of this model and all its values integers.
\<close>

definition dict :: "('k \<times> 'v) list \<Rightarrow> ('k \<times> 'v) list" where
  "dict pairs = foldl (\<lambda>d kv. AList.update (fst kv) (snd kv) d) [] pairs"

fun typed_key :: "string option \<times> jv \<Rightarrow> (string \<times> jv) option" where
  "typed_key (Some k, v) = Some (k, v)"
| "typed_key (None, v) = None"

fun typed_value :: "string \<times> jv \<Rightarrow> (string \<times> int) option" where
  "typed_value (k, JInt n) = Some (k, n)"
| "typed_value _ = None"

fun as_stock :: "jv \<Rightarrow> (string \<times> int) list option" where
  "as_stock (JObject pairs) =
     (case those (map typed_key pairs) of
        None \<Rightarrow> None
      | Some kvs \<Rightarrow> those (map typed_value (dict kvs)))"
| "as_stock _ = None"

subsection \<open>\<^verbatim>\<open>load_data\<close> and \<^verbatim>\<open>save_data\<close>\<close>

text \<open>
  \<^verbatim>\<open>open(path, "r")\<close> raises \<^verbatim>\<open>FileNotFoundError\<close> when the path names nothing and
  \<^verbatim>\<open>IsADirectoryError\<close> when it names a directory. Other ways in which opening a file fails
  are not modelled.
\<close>

definition open_read :: "string \<Rightarrow> state \<Rightarrow> exn + string" where
  "open_read path s =
     (case files s path of
        None \<Rightarrow> Inl FileNotFoundError
      | Some Directory \<Rightarrow> Inl IsADirectoryError
      | Some (File text) \<Rightarrow> Inr text)"

text \<open>
  \<^verbatim>\<open>json.load\<close> on the text of a file, as far as \<open>stock_data\<close> can hold the result. \<open>None\<close> says
  that the text decodes to a value that is no dictionary of strings and integers (or that the
  counter ran out): the model does not follow such a call.
\<close>

definition json_load :: "string \<Rightarrow> (exn + (string \<times> int) list) option" where
  "json_load text =
     (case json_loads text of
        Decode_Error \<Rightarrow> Some (Inl JSONDecodeError)
      | Out_Of_Fuel \<Rightarrow> None
      | Got v _ \<Rightarrow> (case as_stock v of None \<Rightarrow> None | Some d \<Rightarrow> Some (Inr d)))"

text \<open>
  The two \<^verbatim>\<open>except\<close> clauses of \<^verbatim>\<open>load_data\<close>; an exception of another class leaves the method.
\<close>

definition load_data_except :: "exn \<Rightarrow> state \<Rightarrow> (exn + unit) \<times> state" where
  "load_data_except e self =
     (if e = FileNotFoundError then
        (Inr (), (logging WARNING ''File %s not found, starting with empty data.''
                    [PyStr (file_name self)] self)\<lparr>stock_data := []\<rparr>)
      else if e = JSONDecodeError then
        (Inr (), (logging ERROR ''Invalid JSON format in %s.''
                    [PyStr (file_name self)] self)\<lparr>stock_data := []\<rparr>)
      else (Inl e, self))"

definition load_data :: "state \<Rightarrow> ((exn + unit) \<times> state) option" where
  "load_data self =
     (case open_read (file_name self) self of
        Inl e \<Rightarrow> Some (load_data_except e self)
      | Inr text \<Rightarrow>
          (case json_load text of
             None \<Rightarrow> None
           | Some (Inl e) \<Rightarrow> Some (load_data_except e self)
           | Some (Inr d) \<Rightarrow>
               Some (Inr (), logging INFO ''Data loaded successfully from %s''
                               [PyStr (file_name self)] (self\<lparr>stock_data := d\<rparr>))))"




definition demo_zero :: state where
  "demo_zero = demo\<lparr>files := (files demo)(''inventory.json'' \<mapsto>
     File (''{'' @ [CHR 0x22] @ ''apple'' @ [CHR 0x22] @ '': 0}''))\<rparr>"



section \<open>Properties\<close>

lemma stock_data_logging [simp]: "stock_data (logging lv msg args s) = stock_data s"
  by (simp add: logging_def)

lemma files_logging [simp]: "files (logging lv msg args s) = files s"
  by (simp add: logging_def)

lemma file_name_logging [simp]: "file_name (logging lv msg args s) = file_name s"
  by (simp add: logging_def)

lemma map_of_Some_key: "map_of d k = Some v \<Longrightarrow> k \<in> fst ` set d"
  by (metis domI dom_map_of_conv_image_fst)

lemma add_item_ok:
  "as_int qty = Some n \<Longrightarrow> 0 < n \<Longrightarrow>
   add_item (PyStr name) qty self =
     (Inr (), logging INFO ''Added %d of %s'' [qty, PyStr name]
        (self\<lparr>stock_data := AList.update name (dict_get (stock_data self) name 0 + n) (stock_data self)\<rparr>))"
  by (simp add: add_item_def Let_def)

lemma add_item_raises: "fst (add_item item qty self) = Inl e \<Longrightarrow> snd (add_item item qty self) = self"
  by (auto simp: add_item_def Let_def split: option.splits if_splits)

lemma remove_item_present:
  "as_int qty = Some n \<Longrightarrow> map_of (stock_data self) name = Some q \<Longrightarrow>
   remove_item (PyStr name) qty self =
     (if q - n \<le> 0
      then (Inr (), logging INFO ''Removed all of %s (now zero or negative)'' [PyStr name]
              (self\<lparr>stock_data := AList.delete name (stock_data self)\<rparr>))
      else (Inr (), logging INFO ''Removed %d of %s'' [qty, PyStr name]
              (self\<lparr>stock_data := AList.update name (q - n) (stock_data self)\<rparr>)))"
  by (simp add: remove_item_def Let_def update_conv' delete_update_same)

lemma remove_item_absent:
  "as_int qty = Some n \<Longrightarrow> map_of (stock_data self) name = None \<Longrightarrow>
   remove_item (PyStr name) qty self =
     (Inr (), logging WARNING ''Attempted to remove non-existent item: %s'' [PyStr name] self)"
  by (simp add: remove_item_def)

lemma remove_item_type_error:
  "as_str item = None \<or> as_int qty = None \<Longrightarrow>
   remove_item item qty self = (Inl (TypeError ''Invalid item name or quantity type.''), self)"
  by (auto simp: remove_item_def split: option.splits)

text \<open>
  Claim C3. When \<open>item\<close> is a string present in the stock with quantity \<open>q\<close> and \<open>qty\<close> is an
  integer \<open>n\<close>, \<^verbatim>\<open>remove_item\<close> returns normally; the key is deleted when \<open>q - n \<le> 0\<close> and is
  otherwise bound to \<open>q - n\<close>. No other entry changes, and the remaining keys keep their
  order.
\<close>

theorem remove_item_present_spec:
  assumes "map_of (stock_data self) item = Some q" and "as_int qty = Some n"
  shows "fst (remove_item (PyStr item) qty self) = Inr () \<and>
         map_of (stock_data (snd (remove_item (PyStr item) qty self))) =
           (if q - n \<le> 0 then (map_of (stock_data self))(item := None)
            else (map_of (stock_data self))(item \<mapsto> q - n)) \<and>
         map fst (stock_data (snd (remove_item (PyStr item) qty self))) =
           (if q - n \<le> 0 then removeAll item (map fst (stock_data self))
            else map fst (stock_data self))"
  using assms map_of_Some_key [OF assms(1)]
  by (simp add: remove_item_present update_conv' delete_conv' delete_keys update_keys)

theorem remove_item_present_spec_witness:
  "map_of (stock_data demo) ''apple'' = Some 7 \<and> as_int (PyInt 3) = Some 3 \<and>
   fst (remove_item (PyStr ''apple'') (PyInt 3) demo) = Inr () \<and>
   map_of (stock_data (snd (remove_item (PyStr ''apple'') (PyInt 3) demo))) ''apple'' = Some 4 \<and>
   map_of (stock_data (snd (remove_item (PyStr ''apple'') (PyInt 3) demo))) ''banana'' = Some 2 \<and>
   map_of (stock_data (snd (remove_item (PyStr ''apple'') (PyInt 7) demo))) ''apple'' = None \<and>
   map fst (stock_data (snd (remove_item (PyStr ''apple'') (PyInt 7) demo))) = [''banana'']"
proof -
  have a: "map_of (stock_data demo) ''apple'' = Some 7" by (simp add: demo_def)
  have b: "map_of (stock_data demo) ''banana'' = Some 2" by (simp add: demo_def)
  have k: "map fst (stock_data demo) = [''apple'', ''banana'']" by (simp add: demo_def)
  from remove_item_present_spec [OF a, of "PyInt 3" 3]
    remove_item_present_spec [OF a, of "PyInt 7" 7] a b k
  show ?thesis by simp
qed

lemma list_all_update:
  "list_all P d \<Longrightarrow> P (k, v) \<Longrightarrow> list_all P (AList.update k v d)"
  by (induction d) auto

lemma list_all_delete: "list_all P d \<Longrightarrow> list_all P (AList.delete k d)"
  by (simp add: AList.delete_eq list_all_iff)

lemma positive_lookup:
  "list_all (\<lambda>(item, qty). 0 < qty) d \<Longrightarrow> map_of d k = Some (q::int) \<Longrightarrow> 0 < q"
  by (auto simp: list_all_iff dest: map_of_SomeD)

lemma positive_dict_get:
  "list_all (\<lambda>(item, qty). 0 < qty) d \<Longrightarrow> 0 \<le> dict_get d k (0::int)"
  by (auto simp: dict_get_def dest: positive_lookup split: option.splits)

lemma positive_add_item: "positive_stock s \<Longrightarrow> positive_stock (snd (add_item item qty s))"
  unfolding positive_stock_def add_item_def Let_def
  using positive_dict_get [of "stock_data s"]
  by (auto split: option.splits intro!: list_all_update simp: add_pos_nonneg add.commute)

lemma remove_item_cases:
  obtains (raises) "remove_item item qty s = (Inl (TypeError ''Invalid item name or quantity type.''), s)"
  | (absent) name n where "item = PyStr name" "as_int qty = Some n" "map_of (stock_data s) name = None"
  | (present) name n q where "item = PyStr name" "as_int qty = Some n" "map_of (stock_data s) name = Some q"
proof (cases "as_str item")
  case None
  then show ?thesis using raises remove_item_type_error by blast
next
  case (Some name)
  then have item: "item = PyStr name" by (cases item) simp_all
  show ?thesis
  proof (cases "as_int qty")
    case None
    then show ?thesis using raises remove_item_type_error by blast
  next
    case n: (Some n)
    show ?thesis
      by (cases "map_of (stock_data s) name") (use item n absent present in blast)+
  qed
qed

lemma positive_remove_item: "positive_stock s \<Longrightarrow> positive_stock (snd (remove_item item qty s))"
proof (cases item qty s rule: remove_item_cases)
  case raises
  assume "positive_stock s"
  then show ?thesis by (simp add: raises)
next
  case (absent name n)
  assume "positive_stock s"
  then show ?thesis
    using absent by (simp add: remove_item_absent positive_stock_def)
next
  case (present name n q)
  assume "positive_stock s"
  then show ?thesis
    using present
    by (simp add: remove_item_present positive_stock_def list_all_update list_all_delete)
qed



lemma positive_run: "positive_stock s \<Longrightarrow> positive_stock (run calls s)"
proof (induction calls arbitrary: s)
  case Nil
  then show ?case by simp
next
  case (Cons c cs)
  have "positive_stock (perform c s)"
    using Cons.prems by (cases c) (simp_all add: positive_add_item positive_remove_item)
  then show ?case by (simp add: Cons.IH)
qed



lemma dict_get_update_same: "dict_get (AList.update k v d) k dflt = v"
  by (simp add: dict_get_def update_conv')

text \<open>
  Claim C4. For a string \<open>item\<close> and an integer \<open>qty\<close> of value \<open>n > 0\<close>, \<^verbatim>\<open>add_item\<close> followed by
  \<^verbatim>\<open>get_qty\<close> returns the quantity \<^verbatim>\<open>get_qty\<close> returned before (0 for an absent item) plus \<open>n\<close>.
\<close>

theorem add_then_get_qty:
  assumes "as_int qty = Some n" and "0 < n"
  shows "\<exists>prior. get_qty (PyStr item) self = (Inr prior, self) \<and>
           (map_of (stock_data self) item = None \<longrightarrow> prior = 0) \<and>
           fst (add_item (PyStr item) qty self) = Inr () \<and>
           get_qty (PyStr item) (snd (add_item (PyStr item) qty self)) =
             (Inr (prior + n), snd (add_item (PyStr item) qty self))"
  using assms
  by (simp add: add_item_ok get_qty_def dict_get_update_same) (simp add: dict_get_def)

theorem add_then_get_qty_witness:
  "as_int (PyInt 3) = Some 3 \<and> (0::int) < 3 \<and>
   get_qty (PyStr ''apple'') demo = (Inr 7, demo) \<and>
   fst (get_qty (PyStr ''apple'') (snd (add_item (PyStr ''apple'') (PyInt 3) demo))) = Inr 10"
proof -
  have g: "get_qty (PyStr ''apple'') demo = (Inr 7, demo)"
    by (simp add: get_qty_def dict_get_def demo_def)
  from add_then_get_qty [of "PyInt 3" 3 "''apple''" demo] g
  show ?thesis by auto
qed

text \<open>
  Claim C5. \<^verbatim>\<open>add_item\<close> checks its arguments in order: an item that is no string raises the
  \<^verbatim>\<open>TypeError\<close> about the item, whatever the quantity is; then a quantity that is no integer
  raises the \<^verbatim>\<open>TypeError\<close> about the quantity; then a quantity \<open>\<le> 0\<close> raises \<^verbatim>\<open>ValueError\<close>.
  Whenever \<^verbatim>\<open>add_item\<close> raises, one of these checks failed and the state, the stock with it,
  is the state before the call.
\<close>

theorem add_item_validation:
  "(as_str item = None \<longrightarrow>
      add_item item qty self = (Inl (TypeError ''Item name must be a string.''), self)) \<and>
   (as_str item \<noteq> None \<and> as_int qty = None \<longrightarrow>
      add_item item qty self = (Inl (TypeError ''Quantity must be an integer.''), self)) \<and>
   (as_str item \<noteq> None \<and> as_int qty = Some n \<and> n \<le> 0 \<longrightarrow>
      add_item item qty self = (Inl (ValueError ''Quantity must be greater than zero.''), self)) \<and>
   (\<forall>e. fst (add_item item qty self) = Inl e \<longrightarrow>
      snd (add_item item qty self) = self \<and>
      (as_str item = None \<or> as_int qty = None \<or> (\<exists>m. as_int qty = Some m \<and> m \<le> 0)))"
  by (auto simp: add_item_def Let_def split: option.splits)

theorem add_item_validation_witness:
  "add_item (PyInt 42) PyNone demo = (Inl (TypeError ''Item name must be a string.''), demo) \<and>
   add_item (PyStr ''pear'') (PyStr ''1'') demo =
     (Inl (TypeError ''Quantity must be an integer.''), demo) \<and>
   add_item (PyStr ''pear'') (PyInt (- 1)) demo =
     (Inl (ValueError ''Quantity must be greater than zero.''), demo)"
  using add_item_validation [of "PyInt 42" PyNone demo 0]
    add_item_validation [of "PyStr ''pear''" "PyStr ''1''" demo 0]
    add_item_validation [of "PyStr ''pear''" "PyInt (- 1)" demo "- 1"]
  by simp

text \<open>
  Claim C6, as amended. For a string \<open>item\<close> that is not in the stock, \<^verbatim>\<open>remove_item\<close> leaves the
  stock, the file name and the files unchanged whatever \<open>qty\<close> is. It raises nothing when
  \<open>qty\<close> is an integer (of any value, zero and negative included), and raises \<^verbatim>\<open>TypeError\<close>
  when \<open>qty\<close> is not an integer.
\<close>

theorem remove_item_absent_spec:
  assumes "map_of (stock_data self) item = None"
  shows "(as_int qty \<noteq> None \<longrightarrow> fst (remove_item (PyStr item) qty self) = Inr ()) \<and>
         (as_int qty = None \<longrightarrow>
            remove_item (PyStr item) qty self =
              (Inl (TypeError ''Invalid item name or quantity type.''), self)) \<and>
         stock_data (snd (remove_item (PyStr item) qty self)) = stock_data self \<and>
         file_name (snd (remove_item (PyStr item) qty self)) = file_name self \<and>
         files (snd (remove_item (PyStr item) qty self)) = files self"
  using assms by (cases "as_int qty") (auto simp: remove_item_absent remove_item_type_error)

theorem remove_item_absent_spec_witness:
  "map_of (stock_data demo) ''orange'' = None \<and>
   fst (remove_item (PyStr ''orange'') (PyInt (- 4)) demo) = Inr () \<and>
   stock_data (snd (remove_item (PyStr ''orange'') (PyInt (- 4)) demo)) =
     [(''apple'', 7), (''banana'', 2)]"
proof -
  have a: "map_of (stock_data demo) ''orange'' = None" by (simp add: demo_def)
  have d: "stock_data demo = [(''apple'', 7), (''banana'', 2)]" by (simp add: demo_def)
  from remove_item_absent_spec [OF a, of "PyInt (- 4)"] a d show ?thesis by simp
qed

text \<open>
  The claim as stated, for every argument \<open>qty\<close> whatsoever, fails: with the quantity
  \<^verbatim>\<open>"1"\<close>, a string, removing the absent item \<^verbatim>\<open>"orange"\<close> raises \<^verbatim>\<open>TypeError\<close>.
\<close>

theorem remove_item_absent_counterexample:
  "map_of (stock_data demo) ''orange'' = None \<and>
   fst (remove_item (PyStr ''orange'') (PyStr ''1'') demo) =
     Inl (TypeError ''Invalid item name or quantity type.'')"
  by (simp add: demo_def remove_item_def)

lemma low_items_filter:
  "[item. (item, qty) \<leftarrow> d, qty < (t::int)] = map fst (filter (\<lambda>(item, qty). qty < t) d)"
  by (induction d) auto

text \<open>
  Claim C8. \<^verbatim>\<open>check_low_items\<close> returns, in the order of the stock, the names of exactly the
  entries whose quantity is below the threshold (5 when none is given); it returns the state
  it was called in, and the empty list on an empty stock. The witness evaluates it on the stock
  \<^verbatim>\<open>{"apple": 7, "banana": 2}\<close>, where it returns \<^verbatim>\<open>["banana"]\<close>.
\<close>

theorem check_low_items_spec:
  "\<exists>items. check_low_items arg self = (Inr items, self) \<and>
      items = map fst (filter (\<lambda>(item, qty). qty < (case arg of None \<Rightarrow> 5 | Some t \<Rightarrow> t))
                (stock_data self)) \<and>
      (\<forall>item. item \<in> set items \<longleftrightarrow>
         (\<exists>qty. (item, qty) \<in> set (stock_data self) \<and>
                qty < (case arg of None \<Rightarrow> 5 | Some t \<Rightarrow> t))) \<and>
      (stock_data self = [] \<longrightarrow> items = [])"
  by (force simp: check_low_items_def low_items_filter)

theorem check_low_items_spec_witness:
  "check_low_items None demo = (Inr [''banana''], demo) \<and>
   check_low_items (Some 5) demo = (Inr [''banana''], demo) \<and>
   check_low_items (Some 5) (InventoryManager ''inventory.json'' demo) =
     (Inr [], InventoryManager ''inventory.json'' demo)"
proof -
  have d: "stock_data demo = [(''apple'', 7), (''banana'', 2)]" by (simp add: demo_def)
  have e: "stock_data (InventoryManager ''inventory.json'' demo) = []"
    by (simp add: InventoryManager_def)
  from check_low_items_spec [of None demo] check_low_items_spec [of "Some 5" demo]
    check_low_items_spec [of "Some 5" "InventoryManager ''inventory.json'' demo"] d e
  show ?thesis by auto
qed

text \<open>
  Claim C9. For a string \<open>item\<close> and integers \<open>a > 0\<close> and \<open>b > 0\<close>, adding \<open>a\<close> and then \<open>b\<close>
  leaves the same stock as adding \<open>a + b\<close> once.
\<close>

theorem add_item_twice:
  assumes "as_int a = Some x" and "0 < x" and "as_int b = Some y" and "0 < y"
  shows "fst (add_item (PyStr item) a self) = Inr () \<and>
         fst (add_item (PyStr item) b (snd (add_item (PyStr item) a self))) = Inr () \<and>
         fst (add_item (PyStr item) (PyInt (x + y)) self) = Inr () \<and>
         stock_data (snd (add_item (PyStr item) b (snd (add_item (PyStr item) a self)))) =
           stock_data (snd (add_item (PyStr item) (PyInt (x + y)) self))"
  using assms by (simp add: add_item_ok dict_get_update_same add.assoc)

theorem add_item_twice_witness:
  "as_int (PyInt 2) = Some 2 \<and> (0::int) < 2 \<and> as_int (PyInt 3) = Some 3 \<and> (0::int) < 3 \<and>
   stock_data (snd (add_item (PyStr ''banana'') (PyInt 3)
      (snd (add_item (PyStr ''banana'') (PyInt 2) demo)))) = [(''apple'', 7), (''banana'', 7)] \<and>
   stock_data (snd (add_item (PyStr ''banana'') (PyInt (2 + 3)) demo)) =
      [(''apple'', 7), (''banana'', 7)]"
proof -
  have "stock_data (snd (add_item (PyStr ''banana'') (PyInt (2 + 3)) demo)) =
      [(''apple'', 7), (''banana'', 7)]"
    by (simp add: add_item_def demo_def dict_get_def Let_def)
  with add_item_twice [of "PyInt 2" 2 "PyInt 3" 3 "''banana''" demo]
  show ?thesis by simp
qed

text \<open>
  Claim C10, as amended. In every state reached from a new \<^verbatim>\<open>InventoryManager\<close> by a sequence
  of \<^verbatim>\<open>add_item\<close> and \<^verbatim>\<open>remove_item\<close> calls, \<^verbatim>\<open>get_qty\<close> of any hashable item returns normally
  a number that is not negative: 0 when the item is absent, as every item that is no string is,
  and positive when it is present. For an item that cannot be hashed it raises \<^verbatim>\<open>TypeError\<close>.
\<close>

theorem get_qty_nonnegative:
  "(hashable item \<longrightarrow>
      (\<exists>n. get_qty item (run calls (InventoryManager name env)) =
             (Inr n, run calls (InventoryManager name env)) \<and>
           0 \<le> n \<and>
           (as_str item = None \<longrightarrow> n = 0) \<and>
           (\<forall>key. as_str item = Some key \<longrightarrow>
              (map_of (stock_data (run calls (InventoryManager name env))) key = None
                 \<longrightarrow> n = 0) \<and>
              (map_of (stock_data (run calls (InventoryManager name env))) key \<noteq> None
                 \<longrightarrow> 0 < n)))) \<and>
   (\<not> hashable item \<longrightarrow>
      get_qty item (run calls (InventoryManager name env)) =
        (Inl (TypeError (''unhashable type: '' @ [CHR 0x27] @ ''list'' @ [CHR 0x27])),
         run calls (InventoryManager name env)))"
proof -
  have "positive_stock (InventoryManager name env)"
    by (simp add: positive_stock_def InventoryManager_def)
  then have "positive_stock (run calls (InventoryManager name env))"
    by (rule positive_run)
  then have pos: "list_all (\<lambda>(item, qty). 0 < qty)
      (stock_data (run calls (InventoryManager name env)))"
    by (simp add: positive_stock_def)
  show ?thesis
  proof (cases "as_str item")
    case None
    then show ?thesis by (simp add: get_qty_def)
  next
    case (Some key)
    then have h: "hashable item" by (cases item) simp_all
    show ?thesis
    proof (cases "map_of (stock_data (run calls (InventoryManager name env))) key")
      case None
      with Some h show ?thesis by (simp add: get_qty_def dict_get_def)
    next
      case q: (Some q)
      with pos have "0 < q" by (rule positive_lookup)
      with Some h q show ?thesis by (simp add: get_qty_def dict_get_def)
    qed
  qed
qed

theorem get_qty_nonnegative_witness:
  "get_qty (PyStr ''apple'')
     (run [Add (PyStr ''apple'') (PyInt 10), Add (PyStr ''banana'') (PyInt 2),
           Remove (PyStr ''apple'') (PyInt 3), Remove (PyStr ''orange'') (PyInt 1),
           Remove (PyStr ''banana'') (PyInt 5)]
        (InventoryManager ''inventory.json'' demo)) =
     (Inr 7, run [Add (PyStr ''apple'') (PyInt 10), Add (PyStr ''banana'') (PyInt 2),
           Remove (PyStr ''apple'') (PyInt 3), Remove (PyStr ''orange'') (PyInt 1),
           Remove (PyStr ''banana'') (PyInt 5)]
        (InventoryManager ''inventory.json'' demo)) \<and>
   fst (get_qty (PyInt 42)
     (run [Add (PyStr ''apple'') (PyInt 10)] (InventoryManager ''inventory.json'' demo))) = Inr 0 \<and>
   fst (get_qty (PyStr ''banana'')
     (run [Add (PyStr ''apple'') (PyInt 10)] (InventoryManager ''inventory.json'' demo))) = Inr 0"
proof -
  let ?s = "run [Add (PyStr ''apple'') (PyInt 10), Add (PyStr ''banana'') (PyInt 2),
           Remove (PyStr ''apple'') (PyInt 3), Remove (PyStr ''orange'') (PyInt 1),
           Remove (PyStr ''banana'') (PyInt 5)]
        (InventoryManager ''inventory.json'' demo)"
  let ?t = "run [Add (PyStr ''apple'') (PyInt 10)] (InventoryManager ''inventory.json'' demo)"
  have s: "stock_data ?s = [(''apple'', 7)]"
    by (simp add: add_item_def remove_item_def InventoryManager_def dict_get_def Let_def)
  have t: "stock_data ?t = [(''apple'', 10)]"
    by (simp add: add_item_def InventoryManager_def dict_get_def Let_def)
  have b: "map_of (stock_data ?t) ''banana'' = None" unfolding t by simp
  have g: "fst (get_qty (PyStr ''apple'') ?s) = Inr 7"
    unfolding get_qty_def dict_get_def s by simp
  have 1: "get_qty (PyStr ''apple'') ?s = (Inr 7, ?s)"
    using get_qty_nonnegative [of "PyStr ''apple''"
        "[Add (PyStr ''apple'') (PyInt 10), Add (PyStr ''banana'') (PyInt 2),
           Remove (PyStr ''apple'') (PyInt 3), Remove (PyStr ''orange'') (PyInt 1),
           Remove (PyStr ''banana'') (PyInt 5)]" "''inventory.json''" demo] g
    by (metis fst_conv hashable.simps(5))
  have 2: "fst (get_qty (PyInt 42) ?t) = Inr 0"
    using get_qty_nonnegative [of "PyInt 42" "[Add (PyStr ''apple'') (PyInt 10)]"
        "''inventory.json''" demo]
    by auto
  have 3: "fst (get_qty (PyStr ''banana'') ?t) = Inr 0"
    using get_qty_nonnegative [of "PyStr ''banana''" "[Add (PyStr ''apple'') (PyInt 10)]"
        "''inventory.json''" demo] b
    by auto
  from 1 2 3 show ?thesis by blast
qed

text \<open>
  The claim as stated, for every item, fails: \<^verbatim>\<open>get_qty\<close> does not check its argument, and a
  list, which cannot be hashed, makes it raise \<^verbatim>\<open>TypeError\<close> and return no number.
\<close>

theorem get_qty_nonnegative_counterexample:
  "fst (get_qty (PyList [])
     (run [Add (PyStr ''apple'') (PyInt 10)] (InventoryManager ''inventory.json'' demo))) =
   Inl (TypeError (''unhashable type: '' @ [CHR 0x27] @ ''list'' @ [CHR 0x27]))"
  by (simp add: get_qty_def)



lemma load_data_missing:
  "files self (file_name self) = None \<Longrightarrow>
   load_data self =
     Some (Inr (), (logging WARNING ''File %s not found, starting with empty data.''
                      [PyStr (file_name self)] self)\<lparr>stock_data := []\<rparr>)"
  by (simp add: load_data_def open_read_def load_data_except_def)

lemma load_data_directory:
  "files self (file_name self) = Some Directory \<Longrightarrow>
   load_data self = Some (Inl IsADirectoryError, self)"
  by (simp add: load_data_def open_read_def load_data_except_def)


lemma load_data_loaded:
  "files self (file_name self) = Some (File text) \<Longrightarrow> json_load text = Some (Inr d) \<Longrightarrow>
   load_data self =
     Some (Inr (), logging INFO ''Data loaded successfully from %s''
                     [PyStr (file_name self)] (self\<lparr>stock_data := d\<rparr>))"
  by (simp add: load_data_def open_read_def)

lemma json_load_cases:
  "json_load text = None \<or> json_load text = Some (Inl JSONDecodeError) \<or>
   (\<exists>d. json_load text = Some (Inr d))"
  by (auto simp: json_load_def split: scanned.splits option.splits)






lemma positive_load_data:
  assumes "positive_stock s" and "load_data s = Some r"
  shows "positive_stock (snd r) \<longleftrightarrow>
         (\<forall>text d. files s (file_name s) = Some (File text) \<and> json_load text = Some (Inr d) \<longrightarrow>
            list_all (\<lambda>(item, qty). 0 < qty) d)"
proof (cases "files s (file_name s)")
  case None
  with assms show ?thesis by (auto simp: load_data_missing positive_stock_def)
next
  case (Some nd)
  show ?thesis
  proof (cases nd)
    case Directory
    with Some assms show ?thesis by (auto simp: load_data_directory)
  next
    case (File body)
    from json_load_cases [of body] show ?thesis
    proof (elim disjE exE)
      assume "json_load body = None"
      with assms Some File show ?thesis by (simp add: load_data_def open_read_def)
    next
      assume "json_load body = Some (Inl JSONDecodeError)"
      with assms Some File show ?thesis
        by (auto simp: load_data_def open_read_def load_data_except_def positive_stock_def)
    next
      fix d assume "json_load body = Some (Inr d)"
      with assms Some File show ?thesis
        by (auto simp: load_data_loaded positive_stock_def)
    qed
  qed
qed

text \<open>
  Claim C1, as amended. Every state reached from a new \<^verbatim>\<open>InventoryManager\<close> by \<^verbatim>\<open>add_item\<close> and
  \<^verbatim>\<open>remove_item\<close> calls stores only positive quantities, and in a state that does, every key is
  bound to a positive quantity and \<^verbatim>\<open>add_item\<close> and \<^verbatim>\<open>remove_item\<close> keep it so. \<^verbatim>\<open>load_data\<close> does not
  check the quantities it reads: after it, all quantities are positive exactly when the file
  does not hold a dictionary with a quantity that is zero or negative.
\<close>

theorem positive_stock_invariant:
  "positive_stock (run calls (InventoryManager name env)) \<and>
   (positive_stock s \<longrightarrow>
      (\<forall>key q. map_of (stock_data s) key = Some q \<longrightarrow> 0 < q) \<and>
      positive_stock (snd (add_item item qty s)) \<and>
      positive_stock (snd (remove_item item qty s)) \<and>
      (\<forall>r. load_data s = Some r \<longrightarrow>
         (positive_stock (snd r) \<longleftrightarrow>
            (\<forall>text d. files s (file_name s) = Some (File text) \<and>
                 json_load text = Some (Inr d) \<longrightarrow>
               list_all (\<lambda>(item, qty). 0 < qty) d))))"
proof -
  have "positive_stock (InventoryManager name env)"
    by (simp add: positive_stock_def InventoryManager_def)
  then have 1: "positive_stock (run calls (InventoryManager name env))"
    by (rule positive_run)
  have 2: "positive_stock s \<Longrightarrow> map_of (stock_data s) key = Some q \<Longrightarrow> 0 < q" for key q
    unfolding positive_stock_def by (rule positive_lookup)
  show ?thesis
    using 1 2 positive_add_item [of s item qty] positive_remove_item [of s item qty]
      positive_load_data [of s]
    by blast
qed

theorem positive_stock_invariant_witness:
  "positive_stock demo \<and>
   positive_stock (snd (add_item (PyStr ''pear'') (PyInt 1) demo)) \<and>
   positive_stock (snd (remove_item (PyStr ''apple'') (PyInt 7) demo)) \<and>
   map_option (\<lambda>r. positive_stock (snd r)) (load_data demo) = Some True"
proof -
  have p: "positive_stock demo" by (simp add: positive_stock_def demo_def)
  have f: "files demo (file_name demo) = None" by (simp add: demo_def)
  obtain r where r: "load_data demo = Some r" by (simp add: load_data_missing [OF f])
  from positive_stock_invariant [of "[]" "''inventory.json''" demo demo "PyStr ''pear''" "PyInt 1"]
    positive_stock_invariant [of "[]" "''inventory.json''" demo demo "PyStr ''apple''" "PyInt 7"]
    p f r
  show ?thesis by simp
qed

text \<open>
  The claim as stated, that \<^verbatim>\<open>load_data\<close> preserves the invariant, fails on a file that holds
  \<^verbatim>\<open>{"apple": 0}\<close>: the stock after the call binds \<^verbatim>\<open>apple\<close> to 0.
\<close>

theorem positive_stock_invariant_counterexample:
  "positive_stock demo_zero \<and>
   map_option (\<lambda>r. (fst r, stock_data (snd r))) (load_data demo_zero) =
     Some (Inr (), [(''apple'', 0)]) \<and>
   map_option (\<lambda>r. positive_stock (snd r)) (load_data demo_zero) = Some False"
proof -
  have p: "positive_stock demo_zero" by (simp add: positive_stock_def demo_zero_def demo_def)
  have f: "files demo_zero (file_name demo_zero) =
      Some (File (''{'' @ [CHR 0x22] @ ''apple'' @ [CHR 0x22] @ '': 0}''))"
    by (simp add: demo_zero_def demo_def)
  have j: "json_load (''{'' @ [CHR 0x22] @ ''apple'' @ [CHR 0x22] @ '': 0}'') =
      Some (Inr [(''apple'', 0)])"
    by code_simp
  show ?thesis
    using p by (simp add: load_data_loaded [OF f j] positive_stock_def)
qed

subsection \<open>Reading back what \<^verbatim>\<open>json.dump\<close> wrote\<close>





















lemma skip_ws_Nil [simp]: "skip_ws [] = []"
  by (simp add: skip_ws_def)




















lemma file_name_perform [simp]: "file_name (perform c s) = file_name s"
  by (cases c)
     (auto simp: add_item_def remove_item_def Let_def split: option.splits prod.splits)

lemma files_perform [simp]: "files (perform c s) = files s"
  by (cases c)
     (auto simp: add_item_def remove_item_def Let_def split: option.splits prod.splits)



lemma file_name_run [simp]: "file_name (run calls s) = file_name s"
  by (induction calls arbitrary: s) simp_all

lemma files_run [simp]: "files (run calls s) = files s"
  by (induction calls arbitrary: s) simp_all



end
